theory Spec2Isabelle
  imports Complex_Main "HOL-Library.Word" "HOL-Library.Sublist"
begin

section \<open>JavaScript strings\<close>

text \<open>
  A JavaScript string is a sequence of UTF-16 code units: \<open>length\<close> counts code units,
  \<open>substring\<close> cuts at code units, and a regular expression without the \<open>u\<close> flag
  matches code units. String literals of the source are ASCII and are written as HOL
  strings, converted by \<open>js\<close>.
\<close>

type_synonym jschar = "16 word"
type_synonym jsstring = "jschar list"

definition js :: "string \<Rightarrow> jsstring" where
  "js s = map of_char s"

text \<open>
  \<open>String.prototype.trim\<close> removes leading and trailing WhiteSpace and LineTerminator
  code units (ECMA-262): TAB, LF, VT, FF, CR, SP, NBSP, U+1680, U+2000 to U+200A,
  U+2028, U+2029, U+202F, U+205F, U+3000 and U+FEFF.
\<close>

definition isWhiteSpace :: "jschar \<Rightarrow> bool" where
  "isWhiteSpace c \<longleftrightarrow>
     c = 0x09 \<or> c = 0x0A \<or> c = 0x0B \<or> c = 0x0C \<or> c = 0x0D \<or> c = 0x20 \<or> c = 0xA0 \<or>
     c = 0x1680 \<or> (0x2000 \<le> c \<and> c \<le> 0x200A) \<or> c = 0x2028 \<or> c = 0x2029 \<or>
     c = 0x202F \<or> c = 0x205F \<or> c = 0x3000 \<or> c = 0xFEFF"

definition trim :: "jsstring \<Rightarrow> jsstring" where
  "trim s = rev (dropWhile isWhiteSpace (rev (dropWhile isWhiteSpace s)))"

text \<open>\<open>s.startsWith(p)\<close> and \<open>s.substring(0, n)\<close> for \<open>n\<close> a non-negative integer.\<close>

definition startsWith :: "jsstring \<Rightarrow> jsstring \<Rightarrow> bool" where
  "startsWith s p \<longleftrightarrow> take (length p) s = p"

definition substring0 :: "jsstring \<Rightarrow> nat \<Rightarrow> jsstring" where
  "substring0 s n = take n s"

section \<open>The prompt builder\<close>

text \<open>
  The template literal of \<open>buildLegalAnalysisPrompt\<close> (server.js, lines 44 to 93), cut
  at its two interpolations: the text, between double quotes, and the optional question.
\<close>

definition promptHead :: string where
  \<open>promptHead = ''You are an expert legal document analyst. Analyze the following legal text and provide a comprehensive breakdown.

LEGAL TEXT:
"''\<close>

definition promptMid :: string where
  \<open>promptMid = ''"

''\<close>

definition questionOpen :: string where
  \<open>questionOpen = ''SPECIFIC QUESTION: "''\<close>

definition questionClose :: string where
  \<open>questionClose = ''"''\<close>

definition promptTail :: string where
  \<open>promptTail = ''

Please provide a detailed analysis in the following JSON format:

{
  "simplified": "A clear, plain English explanation of the document's main points, preserving all important details and legal implications. Break down complex clauses into understandable language.",
  "riskAssessment": {
    "overallRisk": "low/medium/high",
    "riskFactors": [
      {
        "clause": "Specific clause or section",
        "risk": "high/medium/low",
        "explanation": "Why this is risky and what it means for the user",
        "impact": "Financial/Legal/Operational impact description"
      }
    ]
  },
  "keyTerms": [
    {
      "term": "Legal term or phrase",
      "definition": "Simple explanation of what this means",
      "importance": "Why this term matters"
    }
  ],
  "actionItems": [
    {
      "action": "What the user should do",
      "priority": "high/medium/low",
      "deadline": "When this should be done (if applicable)"
    }
  ],
  "warnings": [
    "Important warnings or red flags the user should be aware of"
  ]
}

Important guidelines:
1. Focus on making complex legal language accessible to non-lawyers
2. Highlight potential risks and their real-world implications
3. Identify terms that could be problematic or unfair
4. Provide actionable advice where appropriate
5. Be objective but help users understand what they're agreeing to
6. If analyzing a specific question, prioritize that in your response

Respond ONLY with valid JSON - no additional text or formatting.''\<close>

text \<open>
  The interpolation \<open>${query ? `SPECIFIC QUESTION: "${query}"` : ''}\<close>: the question is
  written when \<open>query\<close> is truthy, that is a non-empty string; \<open>None\<close> is the absent
  query (\<open>undefined\<close>, or the default \<open>null\<close>).
\<close>

definition questionPart :: "jsstring option \<Rightarrow> jsstring" where
  "questionPart query =
     (case query of
        None \<Rightarrow> []
      | Some q \<Rightarrow> if q \<noteq> [] then js questionOpen @ q @ js questionClose else [])"

definition buildLegalAnalysisPrompt :: "jsstring \<Rightarrow> jsstring option \<Rightarrow> jsstring" where
  "buildLegalAnalysisPrompt text query =
     js promptHead @ text @ js promptMid @ questionPart query @ js promptTail"

section \<open>The response parser\<close>

text \<open>
  \<open>s.replace(/P\n?/g, '')\<close> for a literal, non-empty pattern \<open>P\<close>: the matches are
  found from left to right and do not overlap; each match is \<open>P\<close> and, greedily, one
  line feed after it when there is one; every match is replaced by the empty string.
\<close>

definition dropNewline :: "jsstring \<Rightarrow> jsstring" where
  "dropNewline s = (case s of [] \<Rightarrow> [] | c # cs \<Rightarrow> if c = 0x0A then cs else c # cs)"

function removeAll :: "jsstring \<Rightarrow> jsstring \<Rightarrow> jsstring" where
  "removeAll pat [] = []"
| "removeAll pat (c # cs) =
     (if pat \<noteq> [] \<and> prefix pat (c # cs)
      then removeAll pat (dropNewline (drop (length pat) (c # cs)))
      else c # removeAll pat cs)"
  by pat_completeness auto
termination
proof (relation "measure (\<lambda>(pat, s). length s)")
  show "wf (measure (\<lambda>(pat, s). length s))" by simp
next
  fix pat :: jsstring and c :: jschar and cs :: jsstring
  assume "pat \<noteq> [] \<and> prefix pat (c # cs)"
  then have "0 < length pat" by simp
  then have "length (drop (length pat) (c # cs)) < length (c # cs)" by simp
  moreover have "length (dropNewline x) \<le> length x" for x :: jsstring
    by (simp add: dropNewline_def split: list.splits)
  then have "length (dropNewline (drop (length pat) (c # cs)))
      \<le> length (drop (length pat) (c # cs))" .
  ultimately show "((pat, dropNewline (drop (length pat) (c # cs))), (pat, c # cs))
      \<in> measure (\<lambda>(pat, s). length s)"
    by simp
next
  fix pat :: jsstring and c :: jschar and cs :: jsstring
  show "((pat, cs), (pat, c # cs)) \<in> measure (\<lambda>(pat, s). length s)" by simp
qed

definition fenceJson :: jsstring where
  "fenceJson = js ''```json''"

definition fence :: jsstring where
  "fence = js ''```''"

text \<open>
  \<open>responseText.replace(/```json\n?/g, '').replace(/```\n?/g, '').trim()\<close>, the text
  that both handlers give to \<open>JSON.parse\<close>.
\<close>

definition cleanText :: "jsstring \<Rightarrow> jsstring" where
  "cleanText responseText = trim (removeAll fence (removeAll fenceJson responseText))"

text \<open>
  The oracle's JSON wrapped in a Markdown code fence, as in the example of the
  specification: the opening fence with its language tag on a line of its own, the JSON,
  and the closing fence on a line of its own.
\<close>

definition wrapFence :: "jsstring \<Rightarrow> jsstring" where
  "wrapFence s = fenceJson @ [0x0A] @ s @ [0x0A] @ fence"

section \<open>JSON values\<close>

text \<open>
  The values \<open>JSON.parse\<close> returns. A number is an IEEE double in JavaScript; only
  its truthiness is used here (a number is falsy when it is zero), so it is modelled by
  its real value. An object is the list of its own properties.
\<close>

datatype json =
    JNull
  | JBool bool
  | JNum real
  | JStr jsstring
  | JArr "json list"
  | JObj "(jsstring \<times> json) list"

datatype exn = TypeError | ENOENT

text \<open>ToBoolean; \<open>None\<close> is \<open>undefined\<close>.\<close>

fun truthy :: "json option \<Rightarrow> bool" where
  "truthy None = False"
| "truthy (Some JNull) = False"
| "truthy (Some (JBool b)) = b"
| "truthy (Some (JNum x)) = (x \<noteq> 0)"
| "truthy (Some (JStr s)) = (s \<noteq> [])"
| "truthy (Some (JArr xs)) = True"
| "truthy (Some (JObj kvs)) = True"

text \<open>
  Reading the property \<open>k\<close> of a parsed value, for the two names the service reads,
  \<open>simplified\<close> and \<open>riskAssessment\<close>: \<open>null\<close> has no properties and the read throws a
  TypeError; an object gives its own property, or \<open>undefined\<close>, since
  \<open>Object.prototype\<close> has neither name; booleans, numbers, strings and arrays have
  neither name, nor have their prototypes, and give \<open>undefined\<close>.
\<close>

fun getProp :: "json \<Rightarrow> jsstring \<Rightarrow> exn + json option" where
  "getProp JNull k = Inl TypeError"
| "getProp (JObj kvs) k = Inr (map_of kvs k)"
| "getProp v k = Inr None"

section \<open>Requests, responses and the external collaborators\<close>

text \<open>
  The \<open>metadata\<close> object of a success response. \<open>/analyze\<close> writes \<open>timestamp\<close>,
  \<open>textLength\<close> and \<open>hasQuery\<close>; \<open>/upload\<close> writes \<open>timestamp\<close>, \<open>fileName\<close>,
  \<open>fileSize\<close> and \<open>textLength\<close>.
\<close>

record metadata =
  timestamp :: jsstring
  textLength :: nat
  fileName :: "jsstring option"
  fileSize :: "nat option"
  hasQuery :: "bool option"

text \<open>
  A response body is either \<open>{ error, message }\<close> or the success object
  \<open>{ ...analysisData, metadata }\<close>, kept as the parsed value that is spread and the
  metadata that is set after it (and so replaces a \<open>metadata\<close> property of the parsed
  value).
\<close>

datatype body =
    ErrorBody jsstring jsstring
  | AnalysisBody json metadata

record response =
  status :: nat
  body :: body

definition respondError :: "nat \<Rightarrow> string \<Rightarrow> string \<Rightarrow> response" where
  "respondError code err msg = \<lparr>status = code, body = ErrorBody (js err) (js msg)\<rparr>"

text \<open>
  What lies outside the repository is a parameter: the generation service
  (\<open>model.generateContent(prompt)\<close>, then \<open>result.response\<close> and \<open>response.text()\<close>;
  \<open>None\<close> when any of the three throws or rejects), \<open>JSON.parse\<close> (\<open>None\<close> for a
  SyntaxError), the \<open>pdf-parse\<close> library (\<open>None\<close> when it rejects), the UTF-8 decoder of
  \<open>fs.readFileSync(path, 'utf8')\<close>, and the clock read by \<open>new Date().toISOString()\<close>.
\<close>

type_synonym bytes = "8 word list"

record env =
  generateContent :: "jsstring \<Rightarrow> jsstring option"
  jsonParse :: "jsstring \<Rightarrow> json option"
  pdf :: "bytes \<Rightarrow> jsstring option"
  utf8 :: "bytes \<Rightarrow> jsstring"
  now :: jsstring

text \<open>What a handler did: the response it sent and the prompts it sent to the oracle.\<close>

record handled =
  reply :: response
  prompts :: "jsstring list"

section \<open>POST /analyze\<close>

text \<open>
  The body of the request after \<open>express.json()\<close>, with \<open>text\<close> and \<open>query\<close> strings
  as in the data model of the specification; \<open>None\<close> is an absent property.
\<close>

record analyze_request =
  req_text :: "jsstring option"
  req_query :: "jsstring option"

text \<open>
  \<open>!analysisData.simplified || !analysisData.riskAssessment\<close>, evaluated from left to
  right; the TypeError of a property read on \<open>null\<close> leaves the handler's \<open>try\<close> block.
\<close>

definition invalidStructure :: "json \<Rightarrow> exn + bool" where
  "invalidStructure analysisData =
     (case getProp analysisData (js ''simplified'') of
        Inl e \<Rightarrow> Inl e
      | Inr s \<Rightarrow>
          if \<not> truthy s then Inr True
          else (case getProp analysisData (js ''riskAssessment'') of
                  Inl e \<Rightarrow> Inl e
                | Inr r \<Rightarrow> Inr (\<not> truthy r)))"

definition analyze_handler :: "env \<Rightarrow> analyze_request \<Rightarrow> handled" where
  "analyze_handler env req =
     (case req_text req of
        None \<Rightarrow>
          \<lparr>reply = respondError 400 ''Validation Error'' ''Text content is required'',
           prompts = []\<rparr>
      | Some text \<Rightarrow>
          if text = [] then
            \<lparr>reply = respondError 400 ''Validation Error'' ''Text content is required'',
             prompts = []\<rparr>
          else if length text > 10000 then
            \<lparr>reply = respondError 400 ''Validation Error''
               ''Text must be less than 10,000 characters'',
             prompts = []\<rparr>
          else
            let prompt = buildLegalAnalysisPrompt text (req_query req) in
            (case generateContent env prompt of
               None \<Rightarrow>
                 \<lparr>reply = respondError 500 ''Internal Server Error''
                    ''An unexpected error occurred while analyzing the document'',
                  prompts = [prompt]\<rparr>
             | Some responseText \<Rightarrow>
                 (case jsonParse env (cleanText responseText) of
                    None \<Rightarrow>
                      \<lparr>reply = respondError 500 ''API Processing Error''
                         ''Failed to parse analysis from AI service'',
                       prompts = [prompt]\<rparr>
                  | Some analysisData \<Rightarrow>
                      (case invalidStructure analysisData of
                         Inl e \<Rightarrow>
                           \<lparr>reply = respondError 500 ''Internal Server Error''
                              ''An unexpected error occurred while analyzing the document'',
                            prompts = [prompt]\<rparr>
                       | Inr True \<Rightarrow>
                           \<lparr>reply = respondError 500 ''API Processing Error''
                              ''Invalid analysis response structure'',
                            prompts = [prompt]\<rparr>
                       | Inr False \<Rightarrow>
                           \<lparr>reply =
                              \<lparr>status = 200,
                               body = AnalysisBody analysisData
                                 \<lparr>timestamp = now env,
                                  textLength = length text,
                                  fileName = None,
                                  fileSize = None,
                                  hasQuery = Some (case req_query req of
                                     None \<Rightarrow> False | Some q \<Rightarrow> q \<noteq> [])\<rparr>\<rparr>,
                            prompts = [prompt]\<rparr>))))"

section \<open>POST /upload\<close>

text \<open>
  The files on disk, by path. \<open>fs.readFileSync\<close> and \<open>fs.unlinkSync\<close> throw when the
  path does not exist.
\<close>

type_synonym filesystem = "jsstring \<rightharpoonup> bytes"

definition readFileSync :: "filesystem \<Rightarrow> jsstring \<Rightarrow> exn + bytes" where
  "readFileSync disk p = (case disk p of None \<Rightarrow> Inl ENOENT | Some b \<Rightarrow> Inr b)"

definition unlinkSync :: "filesystem \<Rightarrow> jsstring \<Rightarrow> exn + filesystem" where
  "unlinkSync disk p = (case disk p of None \<Rightarrow> Inl ENOENT | Some b \<Rightarrow> Inr (disk(p := None)))"

definition existsSync :: "filesystem \<Rightarrow> jsstring \<Rightarrow> bool" where
  "existsSync disk p \<longleftrightarrow> disk p \<noteq> None"

text \<open>\<open>req.file\<close> as multer's disk storage fills it, and the request the handler sees.\<close>

record uploaded_file =
  originalname :: jsstring
  mimetype :: jsstring
  path :: jsstring
  fsize :: nat

record upload_request =
  req_file :: "uploaded_file option"
  req_body_query :: "jsstring option"

record upload_handled = handled +
  storage :: filesystem

text \<open>
  Lines 189 to 198: the text is read from a PDF through \<open>pdf-parse\<close>, from a plain text
  file by decoding it, and stays empty for any other media type. \<open>None\<close> is a thrown
  error (a missing file, a PDF the library rejects).
\<close>

definition extractText :: "env \<Rightarrow> uploaded_file \<Rightarrow> filesystem \<Rightarrow> jsstring option" where
  "extractText env f disk =
     (if mimetype f = js ''application/pdf'' then
        (case readFileSync disk (path f) of
           Inl e \<Rightarrow> None
         | Inr pdfBuffer \<Rightarrow> pdf env pdfBuffer)
      else if mimetype f = js ''text/plain'' then
        (case readFileSync disk (path f) of
           Inl e \<Rightarrow> None
         | Inr b \<Rightarrow> Some (utf8 env b))
      else Some [])"

text \<open>Lines 210 to 213.\<close>

definition truncateExtracted :: "jsstring \<Rightarrow> jsstring" where
  "truncateExtracted extractedText =
     (if length extractedText > 10000 then substring0 extractedText 10000 @ js ''...''
      else extractedText)"

text \<open>
  The \<open>catch\<close> block of the handler (lines 247 to 258): the file is deleted if it is
  still there, and the response is a 500.
\<close>

definition upload_catch :: "uploaded_file \<Rightarrow> filesystem \<Rightarrow> jsstring list \<Rightarrow> upload_handled" where
  "upload_catch f disk sent =
     \<lparr>reply = respondError 500 ''Internal Server Error''
        ''An unexpected error occurred while processing the file'',
      prompts = sent,
      storage = (if existsSync disk (path f)
                 then (case unlinkSync disk (path f) of Inl e \<Rightarrow> disk | Inr disk' \<Rightarrow> disk')
                 else disk)\<rparr>"

definition upload_handler :: "env \<Rightarrow> upload_request \<Rightarrow> filesystem \<Rightarrow> upload_handled" where
  "upload_handler env req disk =
     (case req_file req of
        None \<Rightarrow>
          \<lparr>reply = respondError 400 ''Validation Error'' ''No file uploaded'',
           prompts = [], storage = disk\<rparr>
      | Some f \<Rightarrow>
          (case extractText env f disk of
             None \<Rightarrow> upload_catch f disk []
           | Some extracted \<Rightarrow>
               (case unlinkSync disk (path f) of
                  Inl e \<Rightarrow> upload_catch f disk []
                | Inr disk' \<Rightarrow>
                    if trim extracted = [] then
                      \<lparr>reply = respondError 400 ''Processing Error''
                         ''Could not extract text from the uploaded file'',
                       prompts = [], storage = disk'\<rparr>
                    else
                      let extractedText = truncateExtracted extracted;
                          prompt = buildLegalAnalysisPrompt extractedText (req_body_query req)
                      in
                      (case generateContent env prompt of
                         None \<Rightarrow> upload_catch f disk' [prompt]
                       | Some responseText \<Rightarrow>
                           (case jsonParse env (cleanText responseText) of
                              None \<Rightarrow>
                                \<lparr>reply = respondError 500 ''API Processing Error''
                                   ''Failed to parse analysis from AI service'',
                                 prompts = [prompt], storage = disk'\<rparr>
                            | Some analysisData \<Rightarrow>
                                \<lparr>reply =
                                   \<lparr>status = 200,
                                    body = AnalysisBody analysisData
                                      \<lparr>timestamp = now env,
                                       textLength = length extractedText,
                                       fileName = Some (originalname f),
                                       fileSize = Some (fsize f),
                                       hasQuery = None\<rparr>\<rparr>,
                                 prompts = [prompt], storage = disk'\<rparr>)))))"

section \<open>The upload middleware, the error middleware and the 404 handler\<close>

text \<open>
  The two options the source gives to multer (lines 15 to 25): the file filter, which
  accepts the two media types and otherwise calls back with a plain \<open>Error\<close>, and the
  size limit of 10 MiB.
\<close>

datatype middleware_error =
    MulterError jsstring
  | PlainError jsstring

definition fileFilter :: "jsstring \<Rightarrow> middleware_error option" where
  "fileFilter mime =
     (if mime = js ''application/pdf'' \<or> mime = js ''text/plain'' then None
      else Some (PlainError (js ''Only PDF and text files are allowed'')))"

definition fileSizeLimit :: nat where
  "fileSizeLimit = 10 * 1024 * 1024"

text \<open>
  The error middleware (lines 272 to 288): a \<open>MulterError\<close> with code
  \<open>LIMIT_FILE_SIZE\<close> is answered with 400, every other error with 500.
\<close>

definition error_middleware :: "middleware_error \<Rightarrow> response" where
  "error_middleware err =
     (case err of
        MulterError code \<Rightarrow>
          if code = js ''LIMIT_FILE_SIZE'' then
            respondError 400 ''File Error'' ''File size too large. Maximum size is 10MB.''
          else respondError 500 ''Internal Server Error'' ''An unexpected error occurred''
      | PlainError msg \<Rightarrow>
          respondError 500 ''Internal Server Error'' ''An unexpected error occurred'')"

text \<open>
  The file part of a multipart request, and \<open>upload.single('document')\<close> as the multer
  library (1.4.5) behaves: \<open>part_type\<close> is the media type as multer reports it in
  \<open>file.mimetype\<close>, in lower case and without parameters; the file filter is asked first
  and its error is passed on unchanged; a file whose size reaches the limit is refused
  with the \<open>MulterError\<close> of code \<open>LIMIT_FILE_SIZE\<close> and nothing is left on disk;
  otherwise the bytes are stored under the temporary path \<open>tmp\<close> that multer chose and
  \<open>req.file\<close> describes them.
\<close>

record file_part =
  part_name :: jsstring
  part_type :: jsstring
  part_bytes :: bytes

definition upload_single ::
  "file_part option \<Rightarrow> jsstring \<Rightarrow> filesystem \<Rightarrow> middleware_error + (uploaded_file option \<times> filesystem)" where
  "upload_single part tmp disk =
     (case part of
        None \<Rightarrow> Inr (None, disk)
      | Some p \<Rightarrow>
          (case fileFilter (part_type p) of
             Some err \<Rightarrow> Inl err
           | None \<Rightarrow>
               if length (part_bytes p) \<ge> fileSizeLimit
               then Inl (MulterError (js ''LIMIT_FILE_SIZE''))
               else Inr (Some \<lparr>originalname = part_name p, mimetype = part_type p,
                                path = tmp, fsize = length (part_bytes p)\<rparr>,
                         disk(tmp \<mapsto> part_bytes p))))"

text \<open>The route \<open>POST /upload\<close>: multer, then the handler, or the error middleware.\<close>

definition upload_route ::
  "env \<Rightarrow> file_part option \<Rightarrow> jsstring option \<Rightarrow> jsstring \<Rightarrow> filesystem \<Rightarrow> upload_handled" where
  "upload_route env part query tmp disk =
     (case upload_single part tmp disk of
        Inl err \<Rightarrow> \<lparr>reply = error_middleware err, prompts = [], storage = disk\<rparr>
      | Inr (f, disk') \<Rightarrow> upload_handler env \<lparr>req_file = f, req_body_query = query\<rparr> disk')"

text \<open>
  The route \<open>POST /analyze\<close> for a request whose content type is JSON, as the client
  sends it: \<open>express.json({ limit: '10mb' })\<close> (line 28), then the handler, or the error
  middleware. The body parser, as the library behaves: a body of more than 10 MiB is
  refused with a \<open>PayloadTooLargeError\<close> before it is parsed, a body that is not JSON
  with the \<open>SyntaxError\<close> of the parser, and otherwise \<open>req.body\<close> is the parsed
  object. \<open>body_bytes\<close> is the size of the raw body, \<open>body_json\<close> what parsing it gives:
  the message of the syntax error, or the object with its \<open>text\<close> and \<open>query\<close>.
\<close>

definition bodyLimit :: nat where
  "bodyLimit = 10 * 1024 * 1024"

record analyze_http_request =
  body_bytes :: nat
  body_json :: "jsstring + analyze_request"

definition express_json :: "analyze_http_request \<Rightarrow> middleware_error + analyze_request" where
  "express_json r =
     (if body_bytes r > bodyLimit then Inl (PlainError (js ''request entity too large''))
      else (case body_json r of
              Inl msg \<Rightarrow> Inl (PlainError msg)
            | Inr req \<Rightarrow> Inr req))"

definition analyze_route :: "env \<Rightarrow> analyze_http_request \<Rightarrow> handled" where
  "analyze_route env r =
     (case express_json r of
        Inl err \<Rightarrow> \<lparr>reply = error_middleware err, prompts = []\<rparr>
      | Inr req \<Rightarrow> analyze_handler env req)"

text \<open>
  The last middleware (lines 291 to 299), reached by a request that no route answered:
  \<open>None\<close> when it returns without sending anything.
\<close>

definition notFoundMessage :: "jsstring \<Rightarrow> jsstring \<Rightarrow> jsstring" where
  "notFoundMessage method p = js ''Route '' @ method @ js '' '' @ p @ js '' not found''"

definition not_found_handler :: "jsstring \<Rightarrow> jsstring \<Rightarrow> response option" where
  "not_found_handler method p =
     (if startsWith p (js ''/api'') \<or> startsWith p (js ''/analyze'') \<or> startsWith p (js ''/upload'')
      then Some \<lparr>status = 404, body = ErrorBody (js ''Not Found'') (notFoundMessage method p)\<rparr>
      else None)"

section \<open>The client's charts\<close>

text \<open>
  The part of an analysis result that \<open>updateChartsWithRiskData\<close> reads: the risk
  factors, and the action items, which may be absent.
\<close>

record riskFactor =
  clause :: jsstring
  risk :: jsstring
  explanation :: jsstring
  impact :: jsstring

record actionItem =
  action :: jsstring
  priority :: jsstring
  deadline :: "jsstring option"

record riskAssessment =
  overallRisk :: jsstring
  riskFactors :: "riskFactor list"

record analysisResult =
  simplified :: jsstring
  riskAssessment :: riskAssessment
  actionItems :: "actionItem list option"

text \<open>
  A counter object such as \<open>{ high: 0, medium: 0, low: 0 }\<close>, by property name. A
  counter is a number, \<open>NaN\<close>, or \<open>undefined\<close> when read from a name that is not there.
  \<open>counts[k]++\<close> adds one to a number and stores \<open>NaN\<close> for anything else; it never
  changes another property (for the name \<open>__proto__\<close> JavaScript stores nothing; the
  model stores \<open>NaN\<close> under that name, which is never read).
\<close>

datatype jsnum = Num nat | NaN | Undefined

type_synonym counters = "jsstring \<rightharpoonup> jsnum"

definition zeroCounts :: counters where
  "zeroCounts = [js ''high'' \<mapsto> Num 0, js ''medium'' \<mapsto> Num 0, js ''low'' \<mapsto> Num 0]"

definition increment :: "counters \<Rightarrow> jsstring \<Rightarrow> counters" where
  "increment counts k =
     counts(k \<mapsto> (case counts k of Some (Num n) \<Rightarrow> Num (Suc n) | _ \<Rightarrow> NaN))"

definition readCount :: "counters \<Rightarrow> jsstring \<Rightarrow> jsnum" where
  "readCount counts k = (case counts k of None \<Rightarrow> Undefined | Some v \<Rightarrow> v)"

text \<open>\<open>xs.forEach(x => { counts[key(x)]++ })\<close>.\<close>

fun countEach :: "('a \<Rightarrow> jsstring) \<Rightarrow> 'a list \<Rightarrow> counters \<Rightarrow> counters" where
  "countEach key [] counts = counts"
| "countEach key (x # xs) counts = countEach key xs (increment counts (key x))"

record chart =
  chartType :: string
  labels :: "string list"
  chartData :: "jsnum list"

text \<open>
  \<open>updateChartsWithRiskData\<close>: each chart is made when its canvas element is in the
  page (\<open>violationsCtx\<close>, \<open>penaltyCtx\<close>); the result is the bar chart and the doughnut
  chart, \<open>None\<close> for a chart that is not made.
\<close>

definition updateChartsWithRiskData ::
  "bool \<Rightarrow> bool \<Rightarrow> analysisResult \<Rightarrow> chart option \<times> chart option" where
  "updateChartsWithRiskData violationsCtx penaltyCtx data =
     (let riskCounts = countEach risk (riskFactors (riskAssessment data)) zeroCounts;
          bar = (if violationsCtx then
                   Some \<lparr>chartType = ''bar'',
                         labels = [''High Risk'', ''Medium Risk'', ''Low Risk''],
                         chartData = [readCount riskCounts (js ''high''),
                                      readCount riskCounts (js ''medium''),
                                      readCount riskCounts (js ''low'')]\<rparr>
                 else None);
          actionCounts = (case actionItems data of
                            None \<Rightarrow> zeroCounts
                          | Some items \<Rightarrow> countEach priority items zeroCounts);
          doughnut = (if penaltyCtx then
                        Some \<lparr>chartType = ''doughnut'',
                              labels = [''High Priority'', ''Medium Priority'', ''Low Priority''],
                              chartData = [readCount actionCounts (js ''high''),
                                           readCount actionCounts (js ''medium''),
                                           readCount actionCounts (js ''low'')]\<rparr>
                      else None)
      in (bar, doughnut))"

text \<open>The number of elements of a list whose key is \<open>k\<close>.\<close>

definition countOf :: "('a \<Rightarrow> jsstring) \<Rightarrow> string \<Rightarrow> 'a list \<Rightarrow> nat" where
  "countOf key k xs = length (filter (\<lambda>x. key x = js k) xs)"

section \<open>Sample inputs\<close>

text \<open>
  An environment for the examples: the oracle answers \<open>answer\<close> to every prompt,
  \<open>JSON.parse\<close> returns \<open>parsed\<close> on the text \<open>answer\<close> and fails on every other
  text, the PDF library rejects every buffer, and the bytes of a text file are ASCII.
\<close>

definition sample_env :: "jsstring \<Rightarrow> json \<Rightarrow> env" where
  "sample_env answer parsed =
     \<lparr>generateContent = (\<lambda>prompt. Some answer),
      jsonParse = (\<lambda>s. if s = answer then Some parsed else None),
      pdf = (\<lambda>b. None),
      utf8 = map ucast,
      now = js ''2024-05-01T12:00:00.000Z''\<rparr>"

text \<open>An uploaded plain text file of \<open>n\<close> bytes, and a disk that holds only its bytes.\<close>

definition lease_file :: "nat \<Rightarrow> uploaded_file" where
  "lease_file n =
     \<lparr>originalname = js ''lease.txt'', mimetype = js ''text/plain'',
      path = js ''uploads/3f2a'', fsize = n\<rparr>"

definition lease_disk :: "bytes \<Rightarrow> filesystem" where
  "lease_disk b = [js ''uploads/3f2a'' \<mapsto> b]"

definition lease_upload :: "nat \<Rightarrow> upload_request" where
  "lease_upload n = \<lparr>req_file = Some (lease_file n), req_body_query = None\<rparr>"

text \<open>An oracle answer that is valid JSON and has no \<open>riskAssessment\<close>.\<close>

definition answer_without_risk :: jsstring where
  \<open>answer_without_risk = js ''{"simplified":"The lease renews every year."}''\<close>

definition parsed_without_risk :: json where
  "parsed_without_risk = JObj [(js ''simplified'', JStr (js ''The lease renews every year.''))]"

text \<open>A complete oracle answer, as text and as parsed.\<close>

definition answer_complete :: jsstring where
  \<open>answer_complete = js ''{"simplified":"The lease renews every year.","riskAssessment":{"overallRisk":"high","riskFactors":[]}}''\<close>

definition parsed_complete :: json where
  "parsed_complete =
     JObj [(js ''simplified'', JStr (js ''The lease renews every year.'')),
           (js ''riskAssessment'',
              JObj [(js ''overallRisk'', JStr (js ''high'')), (js ''riskFactors'', JArr [])])]"

text \<open>The bytes of two text files: the word Lease, and 10001 letters.\<close>

definition lease_bytes :: bytes where
  "lease_bytes = [0x4C, 0x65, 0x61, 0x73, 0x65]"

definition long_bytes :: bytes where
  "long_bytes = replicate 10001 0x61"

text \<open>
  A request to \<open>/analyze\<close> whose text has 10485761 letters: the body
  \<open>{"text":"a...a"}\<close> has 11 bytes more.
\<close>

definition oversized_request :: analyze_http_request where
  "oversized_request =
     \<lparr>body_bytes = 10485772,
      body_json = Inr \<lparr>req_text = Some (replicate 10485761 0x61), req_query = None\<rparr>\<rparr>"

text \<open>A request to \<open>/analyze\<close> with the JSON body \<open>b\<close> of \<open>n\<close> bytes.\<close>

definition json_request :: "nat \<Rightarrow> analyze_request \<Rightarrow> analyze_http_request" where
  "json_request n b = \<lparr>body_bytes = n, body_json = Inr b\<rparr>"

text \<open>
  The JSON string \<open>a```b\<close>, its serialization, and the two values of \<open>JSON.parse\<close>
  that matter for it: the serialization gives the string, and the serialization without
  its backticks gives the string \<open>ab\<close>.
\<close>

definition backtick_value :: json where
  "backtick_value = JStr (js ''a```b'')"

definition backtick_serialized :: jsstring where
  \<open>backtick_serialized = js ''"a```b"''\<close>

definition backtick_env :: env where
  \<open>backtick_env =
     \<lparr>generateContent = (\<lambda>prompt. Some (wrapFence backtick_serialized)),
      jsonParse = (\<lambda>s. if s = backtick_serialized then Some backtick_value
                        else if s = js ''"ab"'' then Some (JStr (js ''ab''))
                        else None),
      pdf = (\<lambda>b. None),
      utf8 = map ucast,
      now = js ''2024-05-01T12:00:00.000Z''\<rparr>\<close>

definition renewal_result :: analysisResult where
  "renewal_result =
     \<lparr>simplified = js ''The agreement renews by itself.'',
      riskAssessment =
        \<lparr>overallRisk = js ''high'',
         riskFactors =
           [\<lparr>clause = js ''Automatic renewal'', risk = js ''high'',
             explanation = js ''Ninety days of notice are needed.'',
             impact = js ''Financial''\<rparr>]\<rparr>,
      actionItems = None\<rparr>"

section \<open>Facts about strings\<close>

lemma all_dropWhile_iff: "(\<forall>x\<in>set (dropWhile P s). P x) \<longleftrightarrow> (\<forall>x\<in>set s. P x)"
proof
  assume a: "\<forall>x\<in>set (dropWhile P s). P x"
  have "dropWhile P s = []"
  proof (rule ccontr)
    assume n: "dropWhile P s \<noteq> []"
    then have "\<not> P (hd (dropWhile P s))" by (rule hd_dropWhile)
    moreover have "hd (dropWhile P s) \<in> set (dropWhile P s)" using n by simp
    ultimately show False using a by blast
  qed
  then show "\<forall>x\<in>set s. P x" by (simp add: dropWhile_eq_Nil_conv)
next
  assume "\<forall>x\<in>set s. P x"
  then show "\<forall>x\<in>set (dropWhile P s). P x" by (meson set_dropWhileD)
qed

lemma trim_empty_iff: "trim s = [] \<longleftrightarrow> (\<forall>c\<in>set s. isWhiteSpace c)"
  by (simp add: trim_def dropWhile_eq_Nil_conv all_dropWhile_iff)

lemma trim_append_whitespace:
  assumes "isWhiteSpace w"
  shows "trim (x @ [w]) = trim x"
proof (cases "\<forall>c\<in>set x. isWhiteSpace c")
  case True
  then have a: "dropWhile isWhiteSpace x = []"
    by (simp only: dropWhile_eq_Nil_conv)
  have "dropWhile isWhiteSpace (x @ [w]) = dropWhile isWhiteSpace [w]"
    using True by (intro dropWhile_append2) blast
  then have b: "dropWhile isWhiteSpace (x @ [w]) = []"
    using assms by simp
  show ?thesis unfolding trim_def a b ..
next
  case False
  then obtain c where "c \<in> set x" "\<not> isWhiteSpace c" by blast
  then have "dropWhile isWhiteSpace (x @ [w]) = dropWhile isWhiteSpace x @ [w]"
    by (rule dropWhile_append1)
  then show ?thesis using assms by (simp add: trim_def)
qed

lemma trim_unpadded:
  assumes "s \<noteq> []" and "\<not> isWhiteSpace (hd s)" and "\<not> isWhiteSpace (last s)"
  shows "trim s = s"
proof -
  have keep: "dropWhile isWhiteSpace xs = xs" if "xs \<noteq> []" "\<not> isWhiteSpace (hd xs)"
    for xs using that by (cases xs) simp_all
  have a: "dropWhile isWhiteSpace s = s"
    using assms(1,2) by (rule keep)
  have "rev s \<noteq> []" using assms(1) by simp
  moreover have "\<not> isWhiteSpace (hd (rev s))" using assms(1,3) by (simp add: hd_rev)
  ultimately have b: "dropWhile isWhiteSpace (rev s) = rev s" by (rule keep)
  show ?thesis unfolding trim_def a b by simp
qed

lemma length_trim: "length (trim s) \<le> length s"
proof -
  have "length (dropWhile isWhiteSpace (rev (dropWhile isWhiteSpace s)))
      \<le> length (rev (dropWhile isWhiteSpace s))"
    by (rule length_dropWhile_le)
  also have "\<dots> \<le> length s" by (simp add: length_dropWhile_le)
  finally show ?thesis by (simp add: trim_def)
qed

lemma newline_whitespace: "isWhiteSpace 0x0A"
  by (simp add: isWhiteSpace_def)

lemmas sample_defs =
  sample_env_def lease_file_def lease_disk_def lease_upload_def lease_bytes_def long_bytes_def

lemmas upload_defs =
  upload_handler_def upload_catch_def extractText_def readFileSync_def unlinkSync_def
  existsSync_def truncateExtracted_def substring0_def respondError_def Let_def

section \<open>Removing the code fences\<close>

lemma fence_units: "fence = [0x60, 0x60, 0x60]"
  by (simp add: fence_def js_def)

lemma fenceJson_units: "fenceJson = [0x60, 0x60, 0x60, 0x6A, 0x73, 0x6F, 0x6E]"
  by (simp add: fenceJson_def js_def)

lemma dropNewline_append: "r \<noteq> [] \<Longrightarrow> dropNewline (r @ u) = dropNewline r @ u"
  by (cases r) (simp_all add: dropNewline_def)

text \<open>
  A pattern without a line feed cannot match across a line feed: a match that begins
  before it ends before it.
\<close>

lemma prefix_append_newline:
  assumes "0x0A \<notin> set pat" and "prefix pat (s @ 0x0A # u)"
  shows "prefix pat s"
proof (rule ccontr)
  assume n: "\<not> prefix pat s"
  from assms(2) have "prefix pat s \<or> (\<exists>us. pat = s @ us \<and> prefix us (0x0A # u))"
    by (simp add: prefix_append)
  with n obtain us where us: "pat = s @ us" "prefix us (0x0A # u)" by blast
  with n have "us \<noteq> []" by auto
  with us(2) have "hd us = 0x0A" by (cases us) auto
  with \<open>us \<noteq> []\<close> us(1) have "0x0A \<in> set pat" by (cases us) auto
  with assms(1) show False by simp
qed

text \<open>
  So the replacement works on the two sides of a line feed separately; the line feed
  itself disappears exactly when a match ends right before it.
\<close>

lemma removeAll_append_newline:
  assumes "pat \<noteq> []" and "0x0A \<notin> set pat"
  shows "removeAll pat (s @ 0x0A # u) = removeAll pat s @ 0x0A # removeAll pat u
       \<or> removeAll pat (s @ 0x0A # u) = removeAll pat s @ removeAll pat u"
  using assms
proof (induction pat s rule: removeAll.induct)
  case (1 pat)
  then have "\<not> prefix pat (0x0A # u)" by (cases pat) auto
  then show ?case by simp
next
  case (2 pat c cs)
  show ?case
  proof (cases "prefix pat (c # cs)")
    case True
    then obtain r where r: "c # cs = pat @ r" by (auto simp: prefix_def)
    have e: "c # (cs @ 0x0A # u) = pat @ (r @ 0x0A # u)"
    proof -
      have "(c # cs) @ 0x0A # u = (pat @ r) @ 0x0A # u" by (simp only: r)
      then show ?thesis by simp
    qed
    have p2: "prefix pat (c # (cs @ 0x0A # u))" by (simp only: e prefixI)
    have "removeAll pat (c # (cs @ 0x0A # u))
        = removeAll pat (dropNewline (drop (length pat) (c # (cs @ 0x0A # u))))"
      using p2 2(3) by simp
    also have "drop (length pat) (c # (cs @ 0x0A # u)) = r @ 0x0A # u"
      by (simp only: e) simp
    finally have l: "removeAll pat ((c # cs) @ 0x0A # u)
        = removeAll pat (dropNewline (r @ 0x0A # u))" by simp
    have "removeAll pat (c # cs) = removeAll pat (dropNewline (drop (length pat) (c # cs)))"
      using True 2(3) by simp
    also have "drop (length pat) (c # cs) = r" by (simp only: r) simp
    finally have rr: "removeAll pat (c # cs) = removeAll pat (dropNewline r)" .
    have dr: "dropNewline (drop (length pat) (c # cs)) = dropNewline r"
      by (simp only: r) simp
    show ?thesis
    proof (cases "r = []")
      case True
      then show ?thesis using l rr by (simp add: dropNewline_def)
    next
      case False
      have ih: "removeAll pat (dropNewline r @ 0x0A # u) = removeAll pat (dropNewline r) @ 0x0A # removeAll pat u
        \<or> removeAll pat (dropNewline r @ 0x0A # u) = removeAll pat (dropNewline r) @ removeAll pat u"
        using 2(1) [OF _ 2(3) 2(4)] True 2(3) dr by simp
      then show ?thesis using l rr False by (simp add: dropNewline_append)
    qed
  next
    case False
    then have "\<not> prefix pat ((c # cs) @ 0x0A # u)"
      using prefix_append_newline [OF 2(4)] by blast
    then have l: "removeAll pat ((c # cs) @ 0x0A # u) = c # removeAll pat (cs @ 0x0A # u)"
      by simp
    have rr: "removeAll pat (c # cs) = c # removeAll pat cs" using False by simp
    show ?thesis using 2(2) [OF _ 2(3) 2(4)] False l rr by auto
  qed
qed

lemma removeAll_fenceJson_opening:
  "removeAll fenceJson (fenceJson @ 0x0A # x) = removeAll fenceJson x"
  by (simp add: fenceJson_units dropNewline_def)

lemma removeAll_fenceJson_fence: "removeAll fenceJson fence = fence"
  by (simp add: fenceJson_units fence_units)

lemma removeAll_fence_fence: "removeAll fence fence = []"
  by (simp add: fence_units dropNewline_def)

text \<open>
  Three more backticks at the end of a text change nothing once the fences are removed:
  a run of backticks loses its multiples of three.
\<close>

lemma removeAll_fence_closing: "removeAll fence (t @ fence) = removeAll fence t"
proof (induction "fence" t rule: removeAll.induct)
  case 1
  show ?case by (simp add: removeAll_fence_fence)
next
  case (2 c cs)
  have ne: "fence \<noteq> []" by (simp add: fence_units)
  show ?case
  proof (cases "prefix fence (c # cs)")
    case True
    then obtain r where r: "c # cs = fence @ r" by (auto simp: prefix_def)
    have e: "c # (cs @ fence) = fence @ (r @ fence)"
    proof -
      have "(c # cs) @ fence = (fence @ r) @ fence" by (simp only: r)
      then show ?thesis by simp
    qed
    have p2: "prefix fence (c # (cs @ fence))" by (simp only: e prefixI)
    have "removeAll fence (c # (cs @ fence))
        = removeAll fence (dropNewline (drop (length fence) (c # (cs @ fence))))"
      using p2 ne by simp
    also have "drop (length fence) (c # (cs @ fence)) = r @ fence"
      by (simp only: e) simp
    finally have l: "removeAll fence ((c # cs) @ fence)
        = removeAll fence (dropNewline (r @ fence))" by simp
    have "removeAll fence (c # cs) = removeAll fence (dropNewline (drop (length fence) (c # cs)))"
      using True ne by simp
    also have "drop (length fence) (c # cs) = r" by (simp only: r) simp
    finally have rr: "removeAll fence (c # cs) = removeAll fence (dropNewline r)" .
    have dr: "dropNewline (drop (length fence) (c # cs)) = dropNewline r"
      by (simp only: r) simp
    show ?thesis
    proof (cases "r = []")
      case True
      have "dropNewline fence = fence" by (simp add: fence_units dropNewline_def)
      then show ?thesis using l rr True by (simp add: removeAll_fence_fence dropNewline_def)
    next
      case False
      have "removeAll fence (dropNewline r @ fence) = removeAll fence (dropNewline r)"
        using 2(1) True ne dr by simp
      then show ?thesis using l rr False by (simp add: dropNewline_append)
    qed
  next
    case False
    have rr: "removeAll fence (c # cs) = c # removeAll fence cs" using False by simp
    show ?thesis
    proof (cases "prefix fence ((c # cs) @ fence)")
      case True
      with False have "c # cs = [0x60] \<or> c # cs = [0x60, 0x60]"
        by (cases cs; cases "tl cs"; cases "tl (tl cs)") (auto simp: fence_units)
      then show ?thesis
        by (auto simp: fence_units dropNewline_def)
    next
      case n: False
      then have "removeAll fence ((c # cs) @ fence) = c # removeAll fence (cs @ fence)"
        by simp
      then show ?thesis using 2(2) False rr by simp
    qed
  qed
qed

lemma cleanText_wrapFence: "cleanText (wrapFence s) = cleanText s"
proof -
  have nj: "fenceJson \<noteq> []" "0x0A \<notin> set fenceJson" by (simp_all add: fenceJson_units)
  have nf: "fence \<noteq> []" "0x0A \<notin> set fence" by (simp_all add: fence_units)
  let ?A = "removeAll fenceJson" and ?B = "removeAll fence"
  have open_: "?A (wrapFence s) = ?A (s @ 0x0A # fence)"
    by (simp add: wrapFence_def removeAll_fenceJson_opening)
  have "?A (s @ 0x0A # fence) = ?A s @ 0x0A # fence \<or> ?A (s @ 0x0A # fence) = ?A s @ fence"
    using removeAll_append_newline [OF nj, of s fence] by (simp add: removeAll_fenceJson_fence)
  then have "?B (?A (s @ 0x0A # fence)) = ?B (?A s) @ [0x0A] \<or> ?B (?A (s @ 0x0A # fence)) = ?B (?A s)"
  proof
    assume a: "?A (s @ 0x0A # fence) = ?A s @ 0x0A # fence"
    show ?thesis
      using removeAll_append_newline [OF nf, of "?A s" fence]
      by (simp add: a removeAll_fence_fence)
  next
    assume a: "?A (s @ 0x0A # fence) = ?A s @ fence"
    show ?thesis by (simp add: a removeAll_fence_closing)
  qed
  then have "trim (?B (?A (s @ 0x0A # fence))) = trim (?B (?A s))"
    by (auto simp: trim_append_whitespace newline_whitespace)
  then show ?thesis by (simp add: cleanText_def open_)
qed

lemma removeAll_absent: "\<not> sublist pat s \<Longrightarrow> removeAll pat s = s"
proof (induction s)
  case Nil
  show ?case by simp
next
  case (Cons c cs)
  then have "\<not> prefix pat (c # cs)" "\<not> sublist pat cs"
    by (simp_all add: sublist_Cons_right)
  then show ?case using Cons.IH by simp
qed

lemma cleanText_no_fence: "\<not> sublist fence s \<Longrightarrow> cleanText s = trim s"
proof -
  assume a: "\<not> sublist fence s"
  have "prefix fence fenceJson" by (simp add: fence_units fenceJson_units)
  then have "sublist fence fenceJson" by (rule prefix_imp_sublist)
  then have "\<not> sublist fenceJson s" using a sublist_order.order.trans by blast
  then show ?thesis using a by (simp add: cleanText_def removeAll_absent)
qed

text \<open>
  A text without a run of three backticks and without whitespace at its ends, as every
  serialization of a JSON value without such a run is, is left as it is.
\<close>

lemma cleanText_unfenced:
  "\<not> sublist fence s \<Longrightarrow> s \<noteq> [] \<Longrightarrow> \<not> isWhiteSpace (hd s) \<Longrightarrow>
   \<not> isWhiteSpace (last s) \<Longrightarrow> cleanText s = s"
  by (simp add: cleanText_no_fence trim_unpadded)

text \<open>The replacement never makes a text longer, and it makes it shorter when it matches.\<close>

lemma length_dropNewline: "length (dropNewline s) \<le> length s"
  by (simp add: dropNewline_def split: list.splits)

lemma length_removeAll: "length (removeAll pat s) \<le> length s"
proof (induction pat s rule: removeAll.induct)
  case (1 pat)
  show ?case by simp
next
  case (2 pat c cs)
  show ?case
  proof (cases "pat \<noteq> [] \<and> prefix pat (c # cs)")
    case True
    have "length (removeAll pat (c # cs))
        = length (removeAll pat (dropNewline (drop (length pat) (c # cs))))"
      using True by simp
    also have "\<dots> \<le> length (dropNewline (drop (length pat) (c # cs)))"
      using 2(1) True by simp
    also have "\<dots> \<le> length (drop (length pat) (c # cs))"
      by (rule length_dropNewline)
    also have "\<dots> \<le> length (c # cs)" by simp
    finally show ?thesis .
  next
    case False
    then show ?thesis using 2(2) by auto
  qed
qed

lemma length_removeAll_less:
  "pat \<noteq> [] \<Longrightarrow> sublist pat s \<Longrightarrow> length (removeAll pat s) < length s"
proof (induction s)
  case Nil
  then show ?case by simp
next
  case (Cons c cs)
  show ?case
  proof (cases "prefix pat (c # cs)")
    case True
    have "length (removeAll pat (c # cs))
        = length (removeAll pat (dropNewline (drop (length pat) (c # cs))))"
      using True Cons.prems(1) by simp
    also have "\<dots> \<le> length (dropNewline (drop (length pat) (c # cs)))"
      by (rule length_removeAll)
    also have "\<dots> \<le> length (drop (length pat) (c # cs))"
      by (rule length_dropNewline)
    also have "\<dots> < length (c # cs)" using Cons.prems(1) by simp
    finally show ?thesis .
  next
    case False
    then have "sublist pat cs" using Cons.prems(2) by (simp add: sublist_Cons_right)
    then have "length (removeAll pat cs) < length cs" using Cons.IH Cons.prems(1) by simp
    then show ?thesis using False by simp
  qed
qed

lemma cleanText_shrinks: "sublist fence s \<Longrightarrow> length (cleanText s) < length s"
proof -
  assume a: "sublist fence s"
  have ne: "fence \<noteq> []" "fenceJson \<noteq> []" by (simp_all add: fence_units fenceJson_units)
  have "length (removeAll fence (removeAll fenceJson s)) < length s"
  proof (cases "sublist fenceJson s")
    case True
    then have "length (removeAll fenceJson s) < length s"
      using ne(2) by (simp add: length_removeAll_less)
    moreover have "length (removeAll fence (removeAll fenceJson s))
        \<le> length (removeAll fenceJson s)"
      by (rule length_removeAll)
    ultimately show ?thesis by simp
  next
    case False
    then have "removeAll fenceJson s = s" by (rule removeAll_absent)
    then show ?thesis using a ne(1) by (simp add: length_removeAll_less)
  qed
  moreover have "length (cleanText s) \<le> length (removeAll fence (removeAll fenceJson s))"
    unfolding cleanText_def by (rule length_trim)
  ultimately show ?thesis by simp
qed

text \<open>
  The replacement is global: a run of three backticks inside a JSON string is removed
  as well, from a fenced answer and from a raw answer alike.
\<close>

lemma cleanText_inside_string:
  \<open>cleanText (js ''"a```b"'') = js ''"ab"''
   \<and> cleanText (wrapFence (js ''"a```b"'')) = js ''"ab"''\<close>
proof -
  have \<open>cleanText (js ''"a```b"'') = js ''"ab"''\<close>
    by (simp add: cleanText_def fenceJson_units fence_units js_def dropNewline_def
        trim_def isWhiteSpace_def)
  then show ?thesis by (simp only: cleanText_wrapFence)
qed

lemma no_backtick_no_fence: "0x60 \<notin> set s \<Longrightarrow> \<not> sublist fence s"
proof
  assume a: "0x60 \<notin> set s" and b: "sublist fence s"
  from b have "set fence \<subseteq> set s" by (rule set_mono_sublist)
  then show False using a by (simp add: fence_units)
qed

text \<open>The sample answers have no fence and no whitespace at their ends.\<close>

lemma cleanText_answer_complete: "cleanText answer_complete = answer_complete"
proof (rule cleanText_unfenced)
  show "\<not> sublist fence answer_complete"
    by (rule no_backtick_no_fence) (simp add: answer_complete_def js_def)
qed (simp_all add: answer_complete_def js_def isWhiteSpace_def)

lemma cleanText_answer_without_risk: "cleanText answer_without_risk = answer_without_risk"
proof (rule cleanText_unfenced)
  show "\<not> sublist fence answer_without_risk"
    by (rule no_backtick_no_fence) (simp add: answer_without_risk_def js_def)
qed (simp_all add: answer_without_risk_def js_def isWhiteSpace_def)

section \<open>Counting by level\<close>

lemma countEach_counts:
  "m (js k) = Some (Num n) \<Longrightarrow>
     countEach key xs m (js k) = Some (Num (n + countOf key k xs))"
proof (induction xs arbitrary: m n)
  case Nil
  then show ?case by (simp add: countOf_def)
next
  case (Cons x xs)
  show ?case
  proof (cases "key x = js k")
    case True
    then have "increment m (key x) (js k) = Some (Num (Suc n))"
      using Cons.prems by (simp add: increment_def)
    then have "countEach key xs (increment m (key x)) (js k)
        = Some (Num (Suc n + countOf key k xs))"
      by (rule Cons.IH)
    then show ?thesis
      using True by (simp add: countOf_def)
  next
    case False
    then have "increment m (key x) (js k) = Some (Num n)"
      using Cons.prems by (simp add: increment_def)
    then have "countEach key xs (increment m (key x)) (js k)
        = Some (Num (n + countOf key k xs))"
      by (rule Cons.IH)
    then show ?thesis
      using False by (simp add: countOf_def)
  qed
qed

lemma zeroCounts_at:
  "zeroCounts (js ''high'') = Some (Num 0)"
  "zeroCounts (js ''medium'') = Some (Num 0)"
  "zeroCounts (js ''low'') = Some (Num 0)"
  by (simp_all add: zeroCounts_def js_def)

lemma readCount_countEach:
  "k = ''high'' \<or> k = ''medium'' \<or> k = ''low'' \<Longrightarrow>
     readCount (countEach key xs zeroCounts) (js k) = Num (countOf key k xs)"
  using countEach_counts [of zeroCounts k 0 key xs]
  by (auto simp: readCount_def zeroCounts_at)

section \<open>The schema check of the two handlers\<close>

text \<open>
  \<open>/analyze\<close> answers 500 with the message about the response structure when the
  parsed object has no \<open>simplified\<close> or no \<open>riskAssessment\<close>; \<open>/upload\<close> answers 200
  with whatever value the oracle's text parses to.
\<close>

lemma analyze_rejects_missing_field:
  "req_text req = Some t \<Longrightarrow> t \<noteq> [] \<Longrightarrow> length t \<le> 10000 \<Longrightarrow>
   generateContent env (buildLegalAnalysisPrompt t (req_query req)) = Some r \<Longrightarrow>
   jsonParse env (cleanText r) = Some (JObj kvs) \<Longrightarrow>
   map_of kvs (js ''simplified'') = None \<or> map_of kvs (js ''riskAssessment'') = None \<Longrightarrow>
   reply (analyze_handler env req)
     = respondError 500 ''API Processing Error'' ''Invalid analysis response structure''"
  by (auto simp: analyze_handler_def invalidStructure_def Let_def)

text \<open>
  For the answer \<open>null\<close> the check of \<open>/analyze\<close> throws a TypeError, which the
  handler's \<open>catch\<close> block answers with the 500 of an unexpected error.
\<close>

lemma analyze_null_answer:
  "req_text req = Some t \<Longrightarrow> t \<noteq> [] \<Longrightarrow> length t \<le> 10000 \<Longrightarrow>
   generateContent env (buildLegalAnalysisPrompt t (req_query req)) = Some r \<Longrightarrow>
   jsonParse env (cleanText r) = Some JNull \<Longrightarrow>
   reply (analyze_handler env req)
     = respondError 500 ''Internal Server Error''
         ''An unexpected error occurred while analyzing the document''"
  by (simp add: analyze_handler_def invalidStructure_def Let_def)

lemma upload_never_checks_structure:
  "req_file req = Some f \<Longrightarrow> existsSync disk (path f) \<Longrightarrow> extractText env f disk = Some t \<Longrightarrow>
   trim t \<noteq> [] \<Longrightarrow>
   generateContent env (buildLegalAnalysisPrompt (truncateExtracted t) (req_body_query req)) = Some r \<Longrightarrow>
   jsonParse env (cleanText r) = Some d \<Longrightarrow>
   status (reply (upload_handler env req disk)) = 200"
  by (auto simp: upload_handler_def unlinkSync_def existsSync_def Let_def split: option.splits)

text \<open>
  The error middleware answers the size limit of the upload middleware with 400.
\<close>

lemma upload_route_too_large_is_400:
  "fileFilter (part_type p) = None \<Longrightarrow> length (part_bytes p) \<ge> fileSizeLimit \<Longrightarrow>
   reply (upload_route env (Some p) query tmp disk)
     = respondError 400 ''File Error'' ''File size too large. Maximum size is 10MB.''"
  by (simp add: upload_route_def upload_single_def error_middleware_def)

section \<open>The claims\<close>

text \<open>
  Claim C1. An oracle answer that is valid JSON and lacks \<open>simplified\<close> or
  \<open>riskAssessment\<close> is to be answered with a 500 schema error by \<open>/analyze\<close> and by
  \<open>/upload\<close>. The handlers differ: for the answer
  \<open>{"simplified":"The lease renews every year."}\<close>, which has no \<open>riskAssessment\<close>,
  \<open>/upload\<close> answers 200, while \<open>/analyze\<close> answers 500 with the message
  \<open>Invalid analysis response structure\<close>.
\<close>

theorem upload_accepts_answer_without_riskAssessment:
  "getProp parsed_without_risk (js ''riskAssessment'') = Inr None
   \<and> status (reply (upload_handler (sample_env answer_without_risk parsed_without_risk)
        (lease_upload 5) (lease_disk lease_bytes))) = 200
   \<and> reply (analyze_handler (sample_env answer_without_risk parsed_without_risk)
        \<lparr>req_text = Some (js ''Lease''), req_query = None\<rparr>)
      = respondError 500 ''API Processing Error'' ''Invalid analysis response structure''"
proof -
  have a: "getProp parsed_without_risk (js ''riskAssessment'') = Inr None"
    by (simp add: parsed_without_risk_def js_def)
  have b: "status (reply (upload_handler (sample_env answer_without_risk parsed_without_risk)
        (lease_upload 5) (lease_disk lease_bytes))) = 200"
    by (simp add: upload_defs sample_defs trim_empty_iff isWhiteSpace_def js_def
        cleanText_answer_without_risk)
  have c: "reply (analyze_handler (sample_env answer_without_risk parsed_without_risk)
        \<lparr>req_text = Some (js ''Lease''), req_query = None\<rparr>)
      = respondError 500 ''API Processing Error'' ''Invalid analysis response structure''"
    by (simp add: analyze_handler_def sample_env_def Let_def invalidStructure_def
        parsed_without_risk_def js_def cleanText_answer_without_risk)
  show ?thesis using a b c by simp
qed

text \<open>
  Claim C2. When the text extracted from an upload is longer than 10000 code units, the
  prompt is built from its first 10000 code units followed by the marker \<open>...\<close>, and
  \<open>metadata.textLength\<close> of a success response is the length of that truncated text,
  10003. (No prompt is built when the text is only whitespace.)
\<close>

theorem upload_truncates:
  "req_file req = Some f \<Longrightarrow> existsSync disk (path f) \<Longrightarrow> extractText env f disk = Some t \<Longrightarrow>
   length t > 10000 \<Longrightarrow>
     prompts (upload_handler env req disk) =
       (if \<forall>c\<in>set t. isWhiteSpace c then []
        else [buildLegalAnalysisPrompt (take 10000 t @ js ''...'') (req_body_query req)])
     \<and> (status (reply (upload_handler env req disk)) = 200 \<longrightarrow>
          (\<exists>d m. body (reply (upload_handler env req disk)) = AnalysisBody d m
             \<and> textLength m = length (take 10000 t @ js ''...'') \<and> textLength m = 10003))"
  by (auto simp: upload_handler_def upload_catch_def unlinkSync_def existsSync_def trim_empty_iff Let_def
       truncateExtracted_def substring0_def respondError_def js_def
      split: option.splits sum.splits)

theorem upload_truncates_witness:
  "req_file (lease_upload 10001) = Some (lease_file 10001)
   \<and> existsSync (lease_disk long_bytes) (path (lease_file 10001))
   \<and> extractText (sample_env answer_complete parsed_complete) (lease_file 10001)
        (lease_disk long_bytes) = Some (replicate 10001 0x61)
   \<and> length (replicate 10001 (0x61 :: jschar)) > 10000
   \<and> prompts (upload_handler (sample_env answer_complete parsed_complete)
        (lease_upload 10001) (lease_disk long_bytes))
      = [buildLegalAnalysisPrompt (replicate 10000 0x61 @ js ''...'') None]
   \<and> (\<exists>d m. body (reply (upload_handler (sample_env answer_complete parsed_complete)
        (lease_upload 10001) (lease_disk long_bytes))) = AnalysisBody d m \<and> textLength m = 10003)"
proof -
  let ?env = "sample_env answer_complete parsed_complete"
  have h1: "req_file (lease_upload 10001) = Some (lease_file 10001)"
    by (simp add: lease_upload_def)
  have h2: "existsSync (lease_disk long_bytes) (path (lease_file 10001))"
    by (simp add: existsSync_def lease_disk_def lease_file_def)
  have h3: "extractText ?env (lease_file 10001) (lease_disk long_bytes)
      = Some (replicate 10001 0x61)"
    by (simp add: extractText_def readFileSync_def sample_defs js_def)
  have h4: "length (replicate 10001 (0x61 :: jschar)) > 10000" by simp
  have ok: "status (reply (upload_handler ?env (lease_upload 10001) (lease_disk long_bytes))) = 200"
    by (simp add: upload_defs sample_defs trim_empty_iff isWhiteSpace_def js_def
        cleanText_answer_complete)
  have nw: "\<not> (\<forall>c\<in>set (replicate 10001 (0x61 :: jschar)). isWhiteSpace c)"
    by (simp add: isWhiteSpace_def)
  show ?thesis
    using upload_truncates [OF h1 h2 h3 h4] h1 h2 h3 ok nw
    by (auto simp: lease_upload_def)
qed

text \<open>
  The validation of the handler of \<open>/analyze\<close>, which sees the parsed body.
\<close>

lemma analyze_handler_validation:
  "(req_text req = None \<or> req_text req = Some [] \<or> (\<exists>t. req_text req = Some t \<and> length t > 10000)
      \<longrightarrow> status (reply (analyze_handler env req)) = 400
        \<and> (\<exists>m. body (reply (analyze_handler env req)) = ErrorBody (js ''Validation Error'') m)
        \<and> prompts (analyze_handler env req) = [])
   \<and> (\<forall>t. req_text req = Some t \<and> 1 \<le> length t \<and> length t \<le> 10000
      \<longrightarrow> prompts (analyze_handler env req) = [buildLegalAnalysisPrompt t (req_query req)]
        \<and> status (reply (analyze_handler env req)) \<noteq> 400)"
  by (auto simp: analyze_handler_def respondError_def Let_def split: option.splits sum.splits bool.splits)

text \<open>
  A body of more than 10 MiB never reaches the handler: the body parser refuses it and
  the error middleware answers 500.
\<close>

lemma analyze_route_body_too_large:
  "body_bytes r > bodyLimit \<Longrightarrow>
   analyze_route env r =
     \<lparr>reply = respondError 500 ''Internal Server Error'' ''An unexpected error occurred'',
      prompts = []\<rparr>"
  by (simp add: analyze_route_def express_json_def error_middleware_def)

text \<open>
  Claim C3, as stated: every request to \<open>/analyze\<close> whose text is longer than 10000 code
  units is answered 400. It fails for a text of 10485761 letters: its body is larger than
  the limit of the body parser, and the answer is the 500 of the error middleware.
\<close>

theorem analyze_route_validation_counterexample:
  "body_json oversized_request = Inr \<lparr>req_text = Some (replicate 10485761 0x61), req_query = None\<rparr>
   \<and> length (replicate 10485761 (0x61 :: jschar)) > 10000
   \<and> status (reply (analyze_route (sample_env answer_complete parsed_complete) oversized_request))
       = 500
   \<and> status (reply (analyze_route (sample_env answer_complete parsed_complete) oversized_request))
       \<noteq> 400"
  by (simp add: oversized_request_def analyze_route_def express_json_def bodyLimit_def
      error_middleware_def respondError_def)

text \<open>
  Claim C3, amended. For every request to \<open>/analyze\<close> whose body the JSON body parser
  accepts (valid JSON of at most 10 MiB): the service answers 400 with the error
  \<open>Validation Error\<close>, and sends nothing to the oracle, when \<open>text\<close> is absent, empty or
  longer than 10000 code units; a text of 1 to 10000 code units passes validation and the
  prompt built from it is sent.
\<close>

theorem analyze_route_validation:
  "body_bytes r \<le> bodyLimit \<and> body_json r = Inr req \<longrightarrow>
     (req_text req = None \<or> req_text req = Some [] \<or> (\<exists>t. req_text req = Some t \<and> length t > 10000)
        \<longrightarrow> status (reply (analyze_route env r)) = 400
          \<and> (\<exists>m. body (reply (analyze_route env r)) = ErrorBody (js ''Validation Error'') m)
          \<and> prompts (analyze_route env r) = [])
     \<and> (\<forall>t. req_text req = Some t \<and> 1 \<le> length t \<and> length t \<le> 10000
        \<longrightarrow> prompts (analyze_route env r) = [buildLegalAnalysisPrompt t (req_query req)]
          \<and> status (reply (analyze_route env r)) \<noteq> 400)"
proof
  assume a: "body_bytes r \<le> bodyLimit \<and> body_json r = Inr req"
  then have "analyze_route env r = analyze_handler env req"
    by (simp add: analyze_route_def express_json_def)
  then show "(req_text req = None \<or> req_text req = Some [] \<or> (\<exists>t. req_text req = Some t \<and> length t > 10000)
        \<longrightarrow> status (reply (analyze_route env r)) = 400
          \<and> (\<exists>m. body (reply (analyze_route env r)) = ErrorBody (js ''Validation Error'') m)
          \<and> prompts (analyze_route env r) = [])
     \<and> (\<forall>t. req_text req = Some t \<and> 1 \<le> length t \<and> length t \<le> 10000
        \<longrightarrow> prompts (analyze_route env r) = [buildLegalAnalysisPrompt t (req_query req)]
          \<and> status (reply (analyze_route env r)) \<noteq> 400)"
    using analyze_handler_validation [of req env] by (simp only:)
qed

theorem analyze_route_validation_witness:
  "body_bytes (json_request 2 \<lparr>req_text = None, req_query = None\<rparr>) \<le> bodyLimit
   \<and> status (reply (analyze_route (sample_env answer_complete parsed_complete)
        (json_request 2 \<lparr>req_text = None, req_query = None\<rparr>))) = 400
   \<and> status (reply (analyze_route (sample_env answer_complete parsed_complete)
        (json_request 10012 \<lparr>req_text = Some (replicate 10001 0x61), req_query = None\<rparr>))) = 400
   \<and> prompts (analyze_route (sample_env answer_complete parsed_complete)
        (json_request 23 \<lparr>req_text = Some (js ''Rent is due.''), req_query = None\<rparr>))
     = [buildLegalAnalysisPrompt (js ''Rent is due.'') None]"
proof -
  let ?env = "sample_env answer_complete parsed_complete"
  let ?none = "\<lparr>req_text = None, req_query = None\<rparr>"
  let ?long = "\<lparr>req_text = Some (replicate 10001 0x61), req_query = None\<rparr>"
  let ?rent = "\<lparr>req_text = Some (js ''Rent is due.''), req_query = None\<rparr>"
  have h1: "body_bytes (json_request 2 ?none) \<le> bodyLimit \<and> body_json (json_request 2 ?none) = Inr ?none"
    by (simp add: json_request_def bodyLimit_def)
  have h2: "body_bytes (json_request 10012 ?long) \<le> bodyLimit
      \<and> body_json (json_request 10012 ?long) = Inr ?long"
    by (simp add: json_request_def bodyLimit_def)
  have h3: "body_bytes (json_request 23 ?rent) \<le> bodyLimit
      \<and> body_json (json_request 23 ?rent) = Inr ?rent"
    by (simp add: json_request_def bodyLimit_def)
  have a: "status (reply (analyze_route ?env (json_request 2 ?none))) = 400"
    using analyze_route_validation [of "json_request 2 ?none" ?none ?env] h1 by simp
  have b: "status (reply (analyze_route ?env (json_request 10012 ?long))) = 400"
    using analyze_route_validation [of "json_request 10012 ?long" ?long ?env] h2 by simp
  have c: "prompts (analyze_route ?env (json_request 23 ?rent))
      = [buildLegalAnalysisPrompt (js ''Rent is due.'') None]"
    using analyze_route_validation [of "json_request 23 ?rent" ?rent ?env] h3
    by (simp add: js_def)
  from h1 a b c show ?thesis by (simp only: simp_thms)
qed

text \<open>
  Claim C4. A file whose media type is neither \<open>application/pdf\<close> nor \<open>text/plain\<close>
  is to be refused with a response of the 400 class. The file filter refuses it with a
  plain \<open>Error\<close>, which the error middleware answers with 500 and the message
  \<open>An unexpected error occurred\<close>; only the size limit is answered with 400
  (\<open>upload_route_too_large_is_400\<close>).
\<close>

theorem upload_route_wrong_type_is_500:
  "reply (upload_route env
      (Some \<lparr>part_name = js ''photo.png'', part_type = js ''image/png'', part_bytes = b\<rparr>)
      query tmp disk)
    = respondError 500 ''Internal Server Error'' ''An unexpected error occurred''
   \<and> status (respondError 500 ''Internal Server Error'' ''An unexpected error occurred'') = 500"
  by (simp add: upload_route_def upload_single_def fileFilter_def error_middleware_def
      respondError_def js_def)

text \<open>
  Claim C5. When the text extracted from an uploaded file is empty or only whitespace,
  \<open>/upload\<close> answers 400 with the error \<open>Processing Error\<close> and the message
  \<open>Could not extract text from the uploaded file\<close>, and sends nothing to the oracle.
\<close>

theorem upload_empty_text:
  "req_file req = Some f \<Longrightarrow> existsSync disk (path f) \<Longrightarrow> extractText env f disk = Some t \<Longrightarrow>
   \<forall>c\<in>set t. isWhiteSpace c \<Longrightarrow>
     reply (upload_handler env req disk) =
       respondError 400 ''Processing Error'' ''Could not extract text from the uploaded file''
     \<and> prompts (upload_handler env req disk) = []"
  by (auto simp: upload_handler_def unlinkSync_def existsSync_def trim_empty_iff Let_def
      split: option.splits sum.splits)

theorem upload_empty_text_witness:
  "req_file (lease_upload 2) = Some (lease_file 2)
   \<and> existsSync (lease_disk [0x20, 0x0A]) (path (lease_file 2))
   \<and> extractText (sample_env answer_complete parsed_complete) (lease_file 2)
        (lease_disk [0x20, 0x0A]) = Some [0x20, 0x0A]
   \<and> isWhiteSpace 0x20 \<and> isWhiteSpace 0x0A
   \<and> reply (upload_handler (sample_env answer_complete parsed_complete)
        (lease_upload 2) (lease_disk [0x20, 0x0A]))
      = respondError 400 ''Processing Error'' ''Could not extract text from the uploaded file''
   \<and> prompts (upload_handler (sample_env answer_complete parsed_complete)
        (lease_upload 2) (lease_disk [0x20, 0x0A])) = []"
proof -
  let ?env = "sample_env answer_complete parsed_complete"
  have h1: "req_file (lease_upload 2) = Some (lease_file 2)"
    by (simp add: lease_upload_def)
  have h2: "existsSync (lease_disk [0x20, 0x0A]) (path (lease_file 2))"
    by (simp add: existsSync_def lease_disk_def lease_file_def)
  have h3: "extractText ?env (lease_file 2) (lease_disk [0x20, 0x0A]) = Some [0x20, 0x0A]"
    by (simp add: extractText_def readFileSync_def sample_defs js_def)
  have h4: "\<forall>c\<in>set [0x20, 0x0A]. isWhiteSpace c"
    by (simp add: isWhiteSpace_def)
  show ?thesis
    using upload_empty_text [OF h1 h2 h3 h4] h1 h2 h3 h4 by simp
qed

text \<open>
  Claim C6, as stated: for every JSON value, parsing its fenced serialization gives the
  object that parsing its raw serialization gives. It fails for the JSON string
  \<open>a```b\<close>: the fences are removed everywhere, also inside the string, so \<open>JSON.parse\<close>
  is given the serialization of the string \<open>ab\<close> and returns that string.
\<close>

theorem fenced_response_round_trip_counterexample:
  "cleanText (wrapFence backtick_serialized) \<noteq> backtick_serialized
   \<and> jsonParse backtick_env backtick_serialized = Some backtick_value
   \<and> jsonParse backtick_env (cleanText (wrapFence backtick_serialized)) = Some (JStr (js ''ab''))
   \<and> jsonParse backtick_env (cleanText (wrapFence backtick_serialized))
       \<noteq> jsonParse backtick_env backtick_serialized"
proof -
  have c: \<open>cleanText (wrapFence backtick_serialized) = js ''"ab"''\<close>
    using cleanText_inside_string by (simp only: backtick_serialized_def)
  have n: \<open>js ''"ab"'' \<noteq> backtick_serialized\<close>
    by (simp add: backtick_serialized_def js_def)
  have v: "JStr (js ''ab'') \<noteq> backtick_value"
    by (simp add: backtick_value_def js_def)
  show ?thesis
    using n v by (simp add: c backtick_env_def)
qed

text \<open>
  Claim C6, amended. For every serialization \<open>s\<close> of a JSON value that contains no run
  of three backticks (a serialization has no whitespace at its ends), the fenced answer
  is cleaned to \<open>s\<close> itself, so that \<open>JSON.parse\<close> is given the raw serialization and
  returns what it returns for it. A text that contains such a run never comes back: the
  run is removed. For every text, with or without such a run, the fenced answer and the
  raw answer are cleaned to the same text, and both handlers behave the same on the two.
\<close>

theorem fenced_response_round_trip:
  "(\<not> sublist fence s \<and> s \<noteq> [] \<and> \<not> isWhiteSpace (hd s) \<and> \<not> isWhiteSpace (last s) \<longrightarrow>
      cleanText (wrapFence s) = s
      \<and> jsonParse env (cleanText (wrapFence s)) = jsonParse env s)
   \<and> (\<not> sublist fence s \<longrightarrow> cleanText (wrapFence s) = trim s)
   \<and> (sublist fence s \<longrightarrow> cleanText (wrapFence s) \<noteq> s)
   \<and> cleanText (wrapFence s) = cleanText s
   \<and> analyze_handler (env\<lparr>generateContent := \<lambda>p. map_option wrapFence (generateContent env p)\<rparr>) req
       = analyze_handler env req
   \<and> upload_handler (env\<lparr>generateContent := \<lambda>p. map_option wrapFence (generateContent env p)\<rparr>) ureq disk
       = upload_handler env ureq disk"
proof -
  let ?env = "env\<lparr>generateContent := \<lambda>p. map_option wrapFence (generateContent env p)\<rparr>"
  have a: "analyze_handler ?env req = analyze_handler env req"
    by (simp add: analyze_handler_def Let_def cleanText_wrapFence
        split: option.splits sum.splits bool.splits)
  have x: "extractText ?env f disk = extractText env f disk" for f
    by (simp add: extractText_def split: sum.splits)
  have u: "upload_handler ?env ureq disk = upload_handler env ureq disk"
    by (simp add: upload_handler_def Let_def cleanText_wrapFence x
        split: option.splits sum.splits)
  have r: "cleanText (wrapFence s) = s"
    if "\<not> sublist fence s" "s \<noteq> []" "\<not> isWhiteSpace (hd s)" "\<not> isWhiteSpace (last s)"
    using that by (simp add: cleanText_wrapFence cleanText_unfenced)
  have t: "cleanText (wrapFence s) = trim s" if "\<not> sublist fence s"
    using that by (simp add: cleanText_wrapFence cleanText_no_fence)
  have n: "cleanText (wrapFence s) \<noteq> s" if "sublist fence s"
    using cleanText_shrinks [OF that] by (auto simp: cleanText_wrapFence)
  show ?thesis using a u r t n by (simp add: cleanText_wrapFence)
qed

theorem fenced_response_round_trip_witness:
  "\<not> sublist fence answer_complete
   \<and> cleanText (wrapFence answer_complete) = answer_complete
   \<and> jsonParse (sample_env answer_complete parsed_complete) (cleanText (wrapFence answer_complete))
       = Some parsed_complete
   \<and> sublist fence backtick_serialized
   \<and> cleanText (wrapFence backtick_serialized) \<noteq> backtick_serialized"
proof -
  let ?env = "sample_env answer_complete parsed_complete"
  have h: "\<not> sublist fence answer_complete"
    by (rule no_backtick_no_fence) (simp add: answer_complete_def js_def)
  have e: "answer_complete \<noteq> []" "\<not> isWhiteSpace (hd answer_complete)"
    "\<not> isWhiteSpace (last answer_complete)"
    by (simp_all add: answer_complete_def js_def isWhiteSpace_def)
  have b: "sublist fence backtick_serialized"
  proof -
    have eq: \<open>backtick_serialized = js ''"a'' @ fence @ js ''b"''\<close>
      by (simp add: backtick_serialized_def fence_def js_def)
    have \<open>sublist fence (js ''"a'' @ fence @ js ''b"'')\<close>
      by (rule sublist_appendI)
    then show ?thesis by (simp only: eq)
  qed
  note good = fenced_response_round_trip [of answer_complete ?env
      "\<lparr>req_text = Some (js ''Lease''), req_query = None\<rparr>" "lease_upload 5"
      "lease_disk lease_bytes"]
  note bad = fenced_response_round_trip [of backtick_serialized ?env
      "\<lparr>req_text = Some (js ''Lease''), req_query = None\<rparr>" "lease_upload 5"
      "lease_disk lease_bytes"]
  from good h e have c: "cleanText (wrapFence answer_complete) = answer_complete"
    by blast
  have p: "jsonParse ?env answer_complete = Some parsed_complete"
    by (simp add: sample_env_def)
  have w: "jsonParse ?env (cleanText (wrapFence answer_complete)) = Some parsed_complete"
    using p by (simp only: c)
  from bad b have d: "cleanText (wrapFence backtick_serialized) \<noteq> backtick_serialized"
    by blast
  from h c w b d show ?thesis by (intro conjI)
qed

text \<open>
  Claim C7. Whenever a file is attached, the temporary file is gone from the disk when
  the handler of \<open>/upload\<close> has finished, whatever the path taken (text extracted, no
  text, failure of the PDF library, of the oracle or of the parser), and no other file is
  touched. Deleting a file that exists succeeds in this model of the disk.
\<close>

theorem upload_deletes_file:
  "req_file req = Some f \<Longrightarrow>
     storage (upload_handler env req disk) (path f) = None
     \<and> (\<forall>p. p \<noteq> path f \<longrightarrow> storage (upload_handler env req disk) p = disk p)"
  by (auto simp: upload_handler_def upload_catch_def unlinkSync_def existsSync_def Let_def
      split: option.splits sum.splits)

theorem upload_deletes_file_witness:
  "req_file (lease_upload 5) = Some (lease_file 5)
   \<and> lease_disk lease_bytes (js ''uploads/3f2a'') = Some lease_bytes
   \<and> storage (upload_handler (sample_env answer_complete parsed_complete)
        (lease_upload 5) (lease_disk lease_bytes)) (js ''uploads/3f2a'') = None
   \<and> storage (upload_handler (sample_env answer_complete parsed_complete)
        (lease_upload 5) (lease_disk lease_bytes)) (js ''uploads/0000'') =
       lease_disk lease_bytes (js ''uploads/0000'')"
proof -
  have h1: "req_file (lease_upload 5) = Some (lease_file 5)"
    by (simp add: lease_upload_def)
  have p: "path (lease_file 5) = js ''uploads/3f2a''" by (simp add: lease_file_def)
  have n: "js ''uploads/0000'' \<noteq> js ''uploads/3f2a''" by (simp add: js_def)
  show ?thesis
    using upload_deletes_file [OF h1, of "sample_env answer_complete parsed_complete"
        "lease_disk lease_bytes"] h1 n
    by (simp add: p lease_disk_def)
qed

text \<open>
  Claim C8. \<open>buildLegalAnalysisPrompt\<close> is a function of its two arguments. Its result
  contains the text; it contains the query when one is given; with a non-empty query it is
  the fixed template around the text and the question, and without a query, or with the
  empty query, it is the fixed template around the text alone.
\<close>

theorem buildLegalAnalysisPrompt_embeds:
  "sublist text (buildLegalAnalysisPrompt text query)
   \<and> (\<forall>q. query = Some q \<longrightarrow> sublist q (buildLegalAnalysisPrompt text query))
   \<and> (\<forall>q. query = Some q \<and> q \<noteq> [] \<longrightarrow>
        buildLegalAnalysisPrompt text query =
          js promptHead @ text @ js promptMid @ js questionOpen @ q @ js questionClose @ js promptTail)
   \<and> (query = None \<or> query = Some [] \<longrightarrow>
        buildLegalAnalysisPrompt text query = js promptHead @ text @ js promptMid @ js promptTail)
   \<and> (\<forall>text' query'. text' = text \<and> query' = query \<longrightarrow>
        buildLegalAnalysisPrompt text' query' = buildLegalAnalysisPrompt text query)"
proof -
  have t: "sublist text (buildLegalAnalysisPrompt text query)"
    unfolding buildLegalAnalysisPrompt_def by (rule sublist_appendI)
  have q: "sublist q (buildLegalAnalysisPrompt text query)" if "query = Some q" for q
  proof (cases "q = []")
    case True
    then show ?thesis by simp
  next
    case False
    have "buildLegalAnalysisPrompt text query =
        (js promptHead @ text @ js promptMid @ js questionOpen) @ q @ (js questionClose @ js promptTail)"
      using that False by (simp add: buildLegalAnalysisPrompt_def questionPart_def)
    then show ?thesis by (simp only: sublist_appendI)
  qed
  show ?thesis
    using t q by (auto simp: buildLegalAnalysisPrompt_def questionPart_def)
qed

theorem buildLegalAnalysisPrompt_embeds_witness:
  "sublist (js ''Rent is due.'') (buildLegalAnalysisPrompt (js ''Rent is due.'') (Some (js ''When?'')))
   \<and> sublist (js ''When?'') (buildLegalAnalysisPrompt (js ''Rent is due.'') (Some (js ''When?'')))
   \<and> buildLegalAnalysisPrompt (js ''Rent is due.'') (Some (js ''When?'')) =
        js promptHead @ js ''Rent is due.'' @ js promptMid @ js questionOpen @ js ''When?''
          @ js questionClose @ js promptTail
   \<and> buildLegalAnalysisPrompt (js ''Rent is due.'') None =
        js promptHead @ js ''Rent is due.'' @ js promptMid @ js promptTail
   \<and> buildLegalAnalysisPrompt (js ''Rent is due.'') (Some []) =
        js promptHead @ js ''Rent is due.'' @ js promptMid @ js promptTail"
proof -
  let ?t = "js ''Rent is due.''" and ?q = "js ''When?''"
  have n: "?q \<noteq> []" by (simp add: js_def)
  note with_query = buildLegalAnalysisPrompt_embeds [of ?t "Some ?q"]
  note without_query = buildLegalAnalysisPrompt_embeds [of ?t None]
  note empty_query = buildLegalAnalysisPrompt_embeds [of ?t "Some []"]
  from with_query have a: "sublist ?t (buildLegalAnalysisPrompt ?t (Some ?q))"
    by (rule conjunct1)
  from with_query have b: "sublist ?q (buildLegalAnalysisPrompt ?t (Some ?q))"
    by blast
  from with_query n have c: "buildLegalAnalysisPrompt ?t (Some ?q) =
      js promptHead @ ?t @ js promptMid @ js questionOpen @ ?q @ js questionClose @ js promptTail"
    by blast
  from without_query have d: "buildLegalAnalysisPrompt ?t None =
      js promptHead @ ?t @ js promptMid @ js promptTail"
    by blast
  from empty_query have e: "buildLegalAnalysisPrompt ?t (Some []) =
      js promptHead @ ?t @ js promptMid @ js promptTail"
    by blast
  from a b c d e show ?thesis by (intro conjI)
qed

text \<open>
  Claim C9. The data of the bar chart are the numbers of risk factors whose \<open>risk\<close> is
  \<open>high\<close>, \<open>medium\<close> and \<open>low\<close>, in this order; the data of the doughnut chart are
  the numbers of action items by \<open>priority\<close> in the same order, and three zeros when
  \<open>actionItems\<close> is absent; a single risk factor of level \<open>high\<close> gives the bar data
  1, 0, 0.
\<close>

theorem charts_count_by_level:
  "map_option chartData (fst (updateChartsWithRiskData True p d)) =
     Some [Num (countOf risk ''high'' (riskFactors (riskAssessment d))),
           Num (countOf risk ''medium'' (riskFactors (riskAssessment d))),
           Num (countOf risk ''low'' (riskFactors (riskAssessment d)))]
   \<and> map_option chartData (snd (updateChartsWithRiskData v True d)) =
     Some (case actionItems d of
             None \<Rightarrow> [Num 0, Num 0, Num 0]
           | Some items \<Rightarrow> [Num (countOf priority ''high'' items),
                            Num (countOf priority ''medium'' items),
                            Num (countOf priority ''low'' items)])
   \<and> (\<forall>f. riskFactors (riskAssessment d) = [f] \<and> risk f = js ''high'' \<longrightarrow>
        map_option chartData (fst (updateChartsWithRiskData True p d)) =
          Some [Num 1, Num 0, Num 0])"
proof -
  let ?fs = "riskFactors (riskAssessment d)"
  have bar: "map_option chartData (fst (updateChartsWithRiskData True p d)) =
     Some [Num (countOf risk ''high'' ?fs), Num (countOf risk ''medium'' ?fs),
           Num (countOf risk ''low'' ?fs)]"
    by (simp add: updateChartsWithRiskData_def Let_def readCount_countEach)
  have zero: "readCount zeroCounts (js ''high'') = Num 0"
    "readCount zeroCounts (js ''medium'') = Num 0"
    "readCount zeroCounts (js ''low'') = Num 0"
    by (simp_all add: readCount_def zeroCounts_at)
  have doughnut: "map_option chartData (snd (updateChartsWithRiskData v True d)) =
     Some (case actionItems d of
             None \<Rightarrow> [Num 0, Num 0, Num 0]
           | Some items \<Rightarrow> [Num (countOf priority ''high'' items),
                            Num (countOf priority ''medium'' items),
                            Num (countOf priority ''low'' items)])"
    by (simp add: updateChartsWithRiskData_def Let_def readCount_countEach zero
        split: option.splits)
  have one: "map_option chartData (fst (updateChartsWithRiskData True p d)) =
      Some [Num 1, Num 0, Num 0]"
    if "?fs = [f]" and "risk f = js ''high''" for f
  proof -
    have "countOf risk ''high'' ?fs = 1 \<and> countOf risk ''medium'' ?fs = 0
      \<and> countOf risk ''low'' ?fs = 0"
      using that by (simp add: countOf_def js_def)
    then show ?thesis using bar by simp
  qed
  show ?thesis using bar doughnut one by blast
qed

theorem charts_count_by_level_witness:
  "riskFactors (riskAssessment renewal_result) =
      [\<lparr>clause = js ''Automatic renewal'', risk = js ''high'',
        explanation = js ''Ninety days of notice are needed.'', impact = js ''Financial''\<rparr>]
   \<and> map_option chartData (fst (updateChartsWithRiskData True True renewal_result))
       = Some [Num 1, Num 0, Num 0]
   \<and> map_option chartData (snd (updateChartsWithRiskData True True renewal_result))
       = Some [Num 0, Num 0, Num 0]"
  using charts_count_by_level [of True renewal_result True]
  by (simp add: renewal_result_def)

text \<open>
  Claim C10. For a path that starts with none of \<open>/api\<close>, \<open>/analyze\<close> and
  \<open>/upload\<close>, the last handler returns without sending a response; for a path with one
  of these prefixes it sends the 404 response with its two fields.
\<close>

theorem not_found_handler_silent:
  "(\<not> startsWith p (js ''/api'') \<and> \<not> startsWith p (js ''/analyze'') \<and> \<not> startsWith p (js ''/upload'')
      \<longrightarrow> not_found_handler method p = None)
   \<and> (startsWith p (js ''/api'') \<or> startsWith p (js ''/analyze'') \<or> startsWith p (js ''/upload'')
      \<longrightarrow> not_found_handler method p =
            Some \<lparr>status = 404, body = ErrorBody (js ''Not Found'') (notFoundMessage method p)\<rparr>)"
  by (simp add: not_found_handler_def)

theorem not_found_handler_silent_witness:
  "not_found_handler (js ''GET'') (js ''/favicon.ico'') = None
   \<and> not_found_handler (js ''GET'') (js ''/api/users'') =
       Some \<lparr>status = 404,
             body = ErrorBody (js ''Not Found'') (js ''Route GET /api/users not found'')\<rparr>"
  using not_found_handler_silent [of "js ''/favicon.ico''" "js ''GET''"]
    not_found_handler_silent [of "js ''/api/users''" "js ''GET''"]
  by (simp add: startsWith_def notFoundMessage_def js_def)

end
